theory Spec2Isabelle
  imports Main
begin

section \<open>Types of the program\<close>

text \<open>
  The header \<^verbatim>\<open>async_simple/coro/LazyLocalBase.h\<close> is template code: what
  \<^verbatim>\<open>dynamicCast<T>\<close> does depends on the type \<open>T\<close> it is instantiated with.
  A C++ type is a value of \<open>ctype\<close>: the three class templates of the header, a class
  declared by the program that uses the header (by name), and any type that is no class
  (\<^verbatim>\<open>int\<close>, \<^verbatim>\<open>double\<close>, ...).
\<close>

datatype ctype =
    LazyLocalBase
  | LazyLocalBaseImpl ctype
  | SimpleLazyLocal ctype
  | Class string
  | Fundamental string

text \<open>
  The classes a program declares are not part of the header. They enter as a parameter:
  the table of the direct base classes of every declared class.
\<close>

type_synonym class_table = "string \<Rightarrow> ctype list"

text \<open>
  The base classes the header itself writes:
  \<^verbatim>\<open>class LazyLocalBaseImpl : public LazyLocalBase\<close> and
  \<^verbatim>\<open>struct SimpleLazyLocal : public LazyLocalBaseImpl<SimpleLazyLocal<T>>\<close>.
\<close>

fun direct_bases :: "class_table \<Rightarrow> ctype \<Rightarrow> ctype list" where
  "direct_bases CT LazyLocalBase = []"
| "direct_bases CT (LazyLocalBaseImpl Derived) = [LazyLocalBase]"
| "direct_bases CT (SimpleLazyLocal T) = [LazyLocalBaseImpl (SimpleLazyLocal T)]"
| "direct_bases CT (Class n) = CT n"
| "direct_bases CT (Fundamental n) = []"

fun is_class :: "ctype \<Rightarrow> bool" where
  "is_class (Fundamental n) = False"
| "is_class T = True"

text \<open>
  \<^verbatim>\<open>std::is_base_of_v<Base, Derived>\<close>: \<open>Base\<close> is a class and \<open>Derived\<close> is the same
  class or has it among its direct or indirect base classes.
\<close>

inductive is_base_of :: "class_table \<Rightarrow> ctype \<Rightarrow> ctype \<Rightarrow> bool" where
  same: "is_class T \<Longrightarrow> is_base_of CT T T"
| derived: "M \<in> set (direct_bases CT D) \<Longrightarrow> is_base_of CT B M \<Longrightarrow> is_base_of CT B D"

code_pred is_base_of .

text \<open>
  \<^verbatim>\<open>concept isDerivedFromLazyLocal = std::is_base_of_v<LazyLocalBaseImpl<T>, T>\<close>
\<close>

definition isDerivedFromLazyLocal :: "class_table \<Rightarrow> ctype \<Rightarrow> bool" where
  "isDerivedFromLazyLocal CT T = is_base_of CT (LazyLocalBaseImpl T) T"

section \<open>Pointers and objects\<close>

text \<open>
  A value of type \<^verbatim>\<open>detail::LazyLocalBaseTypeTag*\<close>. Every instantiation
  \<^verbatim>\<open>LazyLocalBaseImpl<Derived>\<close> has its own static member \<^verbatim>\<open>typeTag\<close>, an
  object of its own, and \<open>typeTag Derived\<close> is the address of that object: two such
  pointers are equal exactly when they point to the same static member. \<open>stray n\<close> is
  any other pointer value of the type (a tag object that is no \<^verbatim>\<open>typeTag\<close> member,
  or an invalid pointer).
\<close>

datatype tag_ptr =
    nullptr
  | typeTag ctype
  | stray nat

text \<open>
  The address of a live \<^verbatim>\<open>LazyLocalBase\<close> subobject names the object it belongs to.
  The object holds the field \<^verbatim>\<open>_typeinfo\<close> of \<^verbatim>\<open>LazyLocalBase\<close> and, when it is a
  \<^verbatim>\<open>SimpleLazyLocal<T>\<close>, the field \<^verbatim>\<open>localValue\<close>; the members a class of the
  program adds are never touched by the header and are left out.
\<close>

type_synonym addr = nat

record 'v object =
  typeinfo :: tag_ptr
  localValue :: "'v option"

text \<open>
  A live object is of a class, its dynamic type: the class whose constructor ran last on
  it. While the constructor of a base class runs, the object is of that base class.
\<close>

record 'v live_object = "'v object" +
  class_of :: ctype

type_synonym 'v heap = "addr \<Rightarrow> 'v live_object option"

text \<open>
  What \<^verbatim>\<open>dynamicCast<T>\<close> returns, a \<^verbatim>\<open>T*\<close>: null, the object at the address
  of the handle (\<^verbatim>\<open>this\<close> and \<^verbatim>\<open>static_cast<T*>(this)\<close>), or the field
  \<^verbatim>\<open>localValue\<close> of the object at that address.
\<close>

datatype ptr =
    null
  | object_at addr
  | localValue_of addr

text \<open>
  Undefined behaviour is a fault of the model: reading through a pointer to no live
  object, and a \<^verbatim>\<open>static_cast\<close> from a \<^verbatim>\<open>LazyLocalBase*\<close> to a class the object
  is not of.
\<close>

datatype fault = InvalidAccess | UndefinedCast

text \<open>The value a pointer to a \<^verbatim>\<open>localValue\<close> field points to.\<close>

definition pointee :: "'v heap \<Rightarrow> ptr \<Rightarrow> 'v option" where
  "pointee H p =
     (case p of
        localValue_of a \<Rightarrow> (case H a of None \<Rightarrow> None | Some obj \<Rightarrow> localValue obj)
      | _ \<Rightarrow> None)"

text \<open>
  \<^verbatim>\<open>static_cast<T*>(p)\<close> for a \<^verbatim>\<open>LazyLocalBase* p\<close>: defined when the object at \<open>p\<close>
  is of class \<open>T\<close> or of a class derived from \<open>T\<close>, and then the address of that object;
  undefined otherwise.
\<close>

definition static_cast :: "class_table \<Rightarrow> ctype \<Rightarrow> addr \<Rightarrow> 'v heap \<Rightarrow> fault + addr" where
  "static_cast CT T p H =
     (case H p of
        None \<Rightarrow> Inl InvalidAccess
      | Some obj \<Rightarrow> if is_base_of CT T (class_of obj) then Inr p else Inl UndefinedCast)"

section \<open>Constructors and destructor\<close>

text \<open>
  A constructor runs on the storage at \<open>this\<close> and leaves an object there.
  \<^verbatim>\<open>LazyLocalBase(detail::LazyLocalBaseTypeTag* typeinfo) : _typeinfo(typeinfo)\<close>
  is private, \<^verbatim>\<open>LazyLocalBase(std::nullptr_t) : _typeinfo(nullptr)\<close> is public.
\<close>

definition LazyLocalBase_ctor :: "tag_ptr \<Rightarrow> addr \<Rightarrow> 'v heap \<Rightarrow> 'v heap" where
  "LazyLocalBase_ctor ti this H =
     H(this \<mapsto> \<lparr>typeinfo = ti, localValue = None, class_of = LazyLocalBase\<rparr>)"

definition LazyLocalBase_nullptr :: "addr \<Rightarrow> 'v heap \<Rightarrow> 'v heap" where
  "LazyLocalBase_nullptr this H =
     H(this \<mapsto> \<lparr>typeinfo = nullptr, localValue = None, class_of = LazyLocalBase\<rparr>)"

text \<open>
  \<^verbatim>\<open>LazyLocalBaseImpl() : LazyLocalBase(&typeTag)\<close>: the base class is constructed
  first, then the object is a \<^verbatim>\<open>LazyLocalBaseImpl<Derived>\<close>. The constructor is public:
  a program can construct such an object on its own.
\<close>

definition LazyLocalBaseImpl_ctor :: "ctype \<Rightarrow> addr \<Rightarrow> 'v heap \<Rightarrow> 'v heap" where
  "LazyLocalBaseImpl_ctor Derived this H =
     (let H' = LazyLocalBase_ctor (typeTag Derived) this H in
      case H' this of
        None \<Rightarrow> H'
      | Some obj \<Rightarrow> H'(this \<mapsto> obj\<lparr>class_of := LazyLocalBaseImpl Derived\<rparr>))"

text \<open>
  \<^verbatim>\<open>SimpleLazyLocal(Args&&... args) : localValue(std::forward<Args>(args)...)\<close>:
  the base class \<^verbatim>\<open>LazyLocalBaseImpl<SimpleLazyLocal<T>>\<close> is constructed first,
  then the member; \<open>v\<close> is the value the arguments construct.
\<close>

definition SimpleLazyLocal_ctor :: "ctype \<Rightarrow> 'v \<Rightarrow> addr \<Rightarrow> 'v heap \<Rightarrow> 'v heap" where
  "SimpleLazyLocal_ctor T v this H =
     (let H' = LazyLocalBaseImpl_ctor (SimpleLazyLocal T) this H in
      case H' this of
        None \<Rightarrow> H'
      | Some obj \<Rightarrow> H'(this \<mapsto> obj\<lparr>localValue := Some v, class_of := SimpleLazyLocal T\<rparr>))"

text \<open>
  The constructor of a class \<open>C\<close> of the program that has
  \<^verbatim>\<open>LazyLocalBaseImpl<Derived>\<close> as its base class, as in
  \<^verbatim>\<open>struct C : LazyLocalBaseImpl<Derived>\<close>: the language runs the constructor of the
  base class first, then the object is a \<open>C\<close>. A leaf type is the case where \<open>Derived\<close>
  is \<open>C\<close> itself.
\<close>

definition Class_ctor :: "ctype \<Rightarrow> ctype \<Rightarrow> addr \<Rightarrow> 'v heap \<Rightarrow> 'v heap" where
  "Class_ctor C Derived this H =
     (let H' = LazyLocalBaseImpl_ctor Derived this H in
      case H' this of
        None \<Rightarrow> H'
      | Some obj \<Rightarrow> H'(this \<mapsto> obj\<lparr>class_of := C\<rparr>))"

text \<open>\<^verbatim>\<open>virtual ~LazyLocalBase(){}\<close> ends the life of the object.\<close>

definition LazyLocalBase_dtor :: "addr \<Rightarrow> 'v heap \<Rightarrow> 'v heap" where
  "LazyLocalBase_dtor this H = H(this := None)"

section \<open>Copying and assigning a handle\<close>

text \<open>
  \<^verbatim>\<open>LazyLocalBase\<close> declares no copy constructor and no copy assignment operator, and
  deletes neither, so the language declares both, public, and they copy the one field:
  \<^verbatim>\<open>LazyLocalBase(const LazyLocalBase& other) : _typeinfo(other._typeinfo)\<close> constructs
  a \<^verbatim>\<open>LazyLocalBase\<close> at \<open>this\<close>, and \<^verbatim>\<open>operator=(const LazyLocalBase& other)\<close>
  assigns \<^verbatim>\<open>_typeinfo = other._typeinfo\<close> in the object at \<open>this\<close>, whatever class
  that object is of. The copy operations the language declares for the derived classes
  copy their \<^verbatim>\<open>LazyLocalBase\<close> part through these two.
\<close>

definition LazyLocalBase_copy_ctor :: "addr \<Rightarrow> addr \<Rightarrow> 'v heap \<Rightarrow> (fault + unit) \<times> 'v heap" where
  "LazyLocalBase_copy_ctor other this H =
     (case H other of
        None \<Rightarrow> (Inl InvalidAccess, H)
      | Some src \<Rightarrow>
          (Inr (), H(this \<mapsto> \<lparr>typeinfo = typeinfo src, localValue = None, class_of = LazyLocalBase\<rparr>)))"

definition LazyLocalBase_copy_assign :: "addr \<Rightarrow> addr \<Rightarrow> 'v heap \<Rightarrow> (fault + unit) \<times> 'v heap" where
  "LazyLocalBase_copy_assign other this H =
     (case H this of
        None \<Rightarrow> (Inl InvalidAccess, H)
      | Some dst \<Rightarrow>
          (case H other of
             None \<Rightarrow> (Inl InvalidAccess, H)
           | Some src \<Rightarrow> (Inr (), H(this \<mapsto> dst\<lparr>typeinfo := typeinfo src\<rparr>))))"

text \<open>
  \<^verbatim>\<open>_typeinfo\<close> is a protected member: a member function of a class derived from
  \<^verbatim>\<open>LazyLocalBase\<close> can assign any pointer to it. The header has no such assignment;
  a class of the program can have one.
\<close>

definition assign_typeinfo :: "tag_ptr \<Rightarrow> addr \<Rightarrow> 'v heap \<Rightarrow> (fault + unit) \<times> 'v heap" where
  "assign_typeinfo ti this H =
     (case H this of
        None \<Rightarrow> (Inl InvalidAccess, H)
      | Some obj \<Rightarrow> (Inr (), H(this \<mapsto> obj\<lparr>typeinfo := ti\<rparr>)))"

section \<open>Member functions\<close>

text \<open>
  Each member function takes the heap and returns its result together with the heap it
  leaves.
  \<^verbatim>\<open>bool empty() const noexcept { return _typeinfo == nullptr; }\<close>
  (the name \<open>empty\<close> alone is the empty set of HOL).
\<close>

definition empty_handle :: "addr \<Rightarrow> 'v heap \<Rightarrow> (fault + bool) \<times> 'v heap" where
  "empty_handle this H =
     (case H this of
        None \<Rightarrow> (Inl InvalidAccess, H)
      | Some obj \<Rightarrow> (Inr (typeinfo obj = nullptr), H))"

text \<open>\<^verbatim>\<open>static bool isMe(LazyLocalBase* p) { return p->_typeinfo == &typeTag; }\<close>\<close>

definition isMe :: "ctype \<Rightarrow> addr \<Rightarrow> 'v heap \<Rightarrow> (fault + bool) \<times> 'v heap" where
  "isMe Derived p H =
     (case H p of
        None \<Rightarrow> (Inl InvalidAccess, H)
      | Some obj \<Rightarrow> (Inr (typeinfo obj = typeTag Derived), H))"

text \<open>
  \<^verbatim>\<open>T* LazyLocalBase::dynamicCast() noexcept\<close>: the two \<^verbatim>\<open>if constexpr\<close> choose
  the branch from \<open>T\<close> alone. In the second branch \<^verbatim>\<open>T::isMe\<close> is the member
  \<^verbatim>\<open>isMe\<close> that \<open>T\<close> inherits from \<^verbatim>\<open>LazyLocalBaseImpl<T>\<close>, and the result is
  \<^verbatim>\<open>static_cast<T*>(this)\<close>; in the third the result is
  \<^verbatim>\<open>&static_cast<SimpleLazyLocal<T>*>(this)->localValue\<close>.
\<close>

definition dynamicCast :: "class_table \<Rightarrow> ctype \<Rightarrow> addr \<Rightarrow> 'v heap \<Rightarrow> (fault + ptr) \<times> 'v heap" where
  "dynamicCast CT T this H =
     (if LazyLocalBase = T then (Inr (object_at this), H)
      else if isDerivedFromLazyLocal CT T then
        (case isMe T this H of
           (Inl f, H') \<Rightarrow> (Inl f, H')
         | (Inr b, H') \<Rightarrow>
             if b then
               (case static_cast CT T this H' of
                  Inl f \<Rightarrow> (Inl f, H')
                | Inr a \<Rightarrow> (Inr (object_at a), H'))
             else (Inr null, H'))
      else
        (case isMe (SimpleLazyLocal T) this H of
           (Inl f, H') \<Rightarrow> (Inl f, H')
         | (Inr b, H') \<Rightarrow>
             if b then
               (case static_cast CT (SimpleLazyLocal T) this H' of
                  Inl f \<Rightarrow> (Inl f, H')
                | Inr a \<Rightarrow> (Inr (localValue_of a), H'))
             else (Inr null, H')))"

text \<open>
  The tag \<^verbatim>\<open>dynamicCast<T>\<close> compares \<^verbatim>\<open>_typeinfo\<close> with when \<open>T\<close> is not
  \<^verbatim>\<open>LazyLocalBase\<close>: \<^verbatim>\<open>T::isMe\<close> uses the tag of \<open>T\<close> in the second branch, and
  \<^verbatim>\<open>SimpleLazyLocal<T>::isMe\<close> the tag of the wrapper of \<open>T\<close> in the third.
\<close>

definition castTag :: "class_table \<Rightarrow> ctype \<Rightarrow> tag_ptr" where
  "castTag CT T = (if isDerivedFromLazyLocal CT T then typeTag T else typeTag (SimpleLazyLocal T))"

text \<open>The class the \<^verbatim>\<open>static_cast\<close> of that branch casts to.\<close>

definition castClass :: "class_table \<Rightarrow> ctype \<Rightarrow> ctype" where
  "castClass CT T = (if isDerivedFromLazyLocal CT T then T else SimpleLazyLocal T)"


section \<open>Programs as sequences of actions\<close>

text \<open>
  What a program can do with the header: construct an object at an address with one of
  the public constructors or with the constructor of a class of its own, copy a handle
  into a new one, assign a handle to a live one, assign the protected field from a
  derived class, destroy an object, and call \<^verbatim>\<open>empty\<close>, \<^verbatim>\<open>isMe\<close> and
  \<^verbatim>\<open>dynamicCast\<close> on a handle. An action is performed on the heap; a call leaves the
  heap the function returns.
\<close>

datatype 'v action =
    Construct_nullptr addr
  | Construct_LazyLocalBaseImpl ctype addr
  | Construct_SimpleLazyLocal ctype 'v addr
  | Construct_Class ctype ctype addr
  | Copy_construct addr addr
  | Copy_assign addr addr
  | Assign_typeinfo tag_ptr addr
  | Destroy addr
  | Call_empty addr
  | Call_isMe ctype addr
  | Call_dynamicCast ctype addr

fun perform :: "class_table \<Rightarrow> 'v heap \<Rightarrow> 'v action \<Rightarrow> 'v heap" where
  "perform CT H (Construct_nullptr a) = LazyLocalBase_nullptr a H"
| "perform CT H (Construct_LazyLocalBaseImpl D a) = LazyLocalBaseImpl_ctor D a H"
| "perform CT H (Construct_SimpleLazyLocal T v a) = SimpleLazyLocal_ctor T v a H"
| "perform CT H (Construct_Class C D a) = Class_ctor C D a H"
| "perform CT H (Copy_construct other a) = snd (LazyLocalBase_copy_ctor other a H)"
| "perform CT H (Copy_assign other a) = snd (LazyLocalBase_copy_assign other a H)"
| "perform CT H (Assign_typeinfo ti a) = snd (assign_typeinfo ti a H)"
| "perform CT H (Destroy a) = LazyLocalBase_dtor a H"
| "perform CT H (Call_empty a) = snd (empty_handle a H)"
| "perform CT H (Call_isMe D a) = snd (isMe D a H)"
| "perform CT H (Call_dynamicCast T a) = snd (dynamicCast CT T a H)"

definition run :: "class_table \<Rightarrow> 'v action list \<Rightarrow> 'v heap \<Rightarrow> 'v heap" where
  "run CT acts H = foldl (perform CT) H acts"

text \<open>
  The address of the object an action constructs, destroys or assigns to; a call of
  \<^verbatim>\<open>empty\<close>, \<^verbatim>\<open>isMe\<close> or \<^verbatim>\<open>dynamicCast\<close> has none.
\<close>

fun writes_at :: "'v action \<Rightarrow> addr option" where
  "writes_at (Construct_nullptr a) = Some a"
| "writes_at (Construct_LazyLocalBaseImpl D a) = Some a"
| "writes_at (Construct_SimpleLazyLocal T v a) = Some a"
| "writes_at (Construct_Class C D a) = Some a"
| "writes_at (Copy_construct other a) = Some a"
| "writes_at (Copy_assign other a) = Some a"
| "writes_at (Assign_typeinfo ti a) = Some a"
| "writes_at (Destroy a) = Some a"
| "writes_at (Call_empty a) = None"
| "writes_at (Call_isMe D a) = None"
| "writes_at (Call_dynamicCast T a) = None"

text \<open>Whether an action is an assignment to the protected field by a derived class.\<close>

fun protected_write :: "'v action \<Rightarrow> bool" where
  "protected_write (Assign_typeinfo ti a) = True"
| "protected_write act = False"


section \<open>A program for the examples\<close>

text \<open>
  Two classes built the way the header expects,
  \<^verbatim>\<open>struct A : LazyLocalBaseImpl<A> {};\<close> and \<^verbatim>\<open>struct B : LazyLocalBaseImpl<B> {};\<close>;
  every other class name has no base class.
\<close>

definition example_classes :: class_table where
  "example_classes n =
     (if n = ''A'' then [LazyLocalBaseImpl (Class ''A'')]
      else if n = ''B'' then [LazyLocalBaseImpl (Class ''B'')]
      else [])"

section \<open>Which types are derived from their own \<^verbatim>\<open>LazyLocalBaseImpl\<close>\<close>

lemma is_base_of_same_or_direct:
  "is_base_of CT B D \<Longrightarrow> B = D \<or> direct_bases CT D \<noteq> []"
  by (induction rule: is_base_of.induct) auto

lemma not_derived_LazyLocalBase: "\<not> isDerivedFromLazyLocal CT LazyLocalBase"
  unfolding isDerivedFromLazyLocal_def
  using is_base_of_same_or_direct by fastforce

lemma not_derived_Fundamental: "\<not> isDerivedFromLazyLocal CT (Fundamental n)"
  unfolding isDerivedFromLazyLocal_def
  using is_base_of_same_or_direct by fastforce

lemma derived_if_direct:
  assumes "LazyLocalBaseImpl T \<in> set (direct_bases CT T)"
  shows "isDerivedFromLazyLocal CT T"
proof -
  have "is_base_of CT (LazyLocalBaseImpl T) (LazyLocalBaseImpl T)"
    by (rule is_base_of.same) simp
  with assms show ?thesis
    unfolding isDerivedFromLazyLocal_def by (rule is_base_of.derived)
qed

lemma derived_SimpleLazyLocal: "isDerivedFromLazyLocal CT (SimpleLazyLocal T)"
  by (rule derived_if_direct) simp

lemma derived_example_A: "isDerivedFromLazyLocal example_classes (Class ''A'')"
  by (rule derived_if_direct) (simp add: example_classes_def)

lemma derived_example_B: "isDerivedFromLazyLocal example_classes (Class ''B'')"
  by (rule derived_if_direct) (simp add: example_classes_def)

lemma derived_is_class: "isDerivedFromLazyLocal CT T \<Longrightarrow> is_class T"
  using not_derived_Fundamental by (cases T) auto

lemma is_base_of_self: "is_class T \<Longrightarrow> is_base_of CT T T"
  by (rule is_base_of.same)

lemma is_base_of_castClass:
  "T \<noteq> LazyLocalBase \<Longrightarrow> is_base_of CT (castClass CT T) (castClass CT T)"
  by (rule is_base_of.same) (simp add: castClass_def derived_is_class)



section \<open>Objects after construction, and calls on live objects\<close>

lemma LazyLocalBase_nullptr_at:
  "LazyLocalBase_nullptr this H this =
     Some \<lparr>typeinfo = nullptr, localValue = None, class_of = LazyLocalBase\<rparr>"
  by (simp add: LazyLocalBase_nullptr_def)

lemma LazyLocalBaseImpl_ctor_upd:
  "LazyLocalBaseImpl_ctor D this H =
     H(this \<mapsto> \<lparr>typeinfo = typeTag D, localValue = None, class_of = LazyLocalBaseImpl D\<rparr>)"
  by (simp add: LazyLocalBaseImpl_ctor_def LazyLocalBase_ctor_def)

lemma SimpleLazyLocal_ctor_upd:
  "SimpleLazyLocal_ctor T v this H =
     H(this \<mapsto> \<lparr>typeinfo = typeTag (SimpleLazyLocal T), localValue = Some v,
                 class_of = SimpleLazyLocal T\<rparr>)"
  by (simp add: SimpleLazyLocal_ctor_def LazyLocalBaseImpl_ctor_upd)

lemma Class_ctor_upd:
  "Class_ctor C D this H =
     H(this \<mapsto> \<lparr>typeinfo = typeTag D, localValue = None, class_of = C\<rparr>)"
  by (simp add: Class_ctor_def LazyLocalBaseImpl_ctor_upd)

lemma LazyLocalBaseImpl_ctor_at:
  "LazyLocalBaseImpl_ctor D this H this =
     Some \<lparr>typeinfo = typeTag D, localValue = None, class_of = LazyLocalBaseImpl D\<rparr>"
  by (simp add: LazyLocalBaseImpl_ctor_upd)

lemma SimpleLazyLocal_ctor_at:
  "SimpleLazyLocal_ctor T v this H this =
     Some \<lparr>typeinfo = typeTag (SimpleLazyLocal T), localValue = Some v,
            class_of = SimpleLazyLocal T\<rparr>"
  by (simp add: SimpleLazyLocal_ctor_upd)

lemma Class_ctor_at:
  "Class_ctor C D this H this = Some \<lparr>typeinfo = typeTag D, localValue = None, class_of = C\<rparr>"
  by (simp add: Class_ctor_upd)

lemma isMe_live:
  "H p = Some obj \<Longrightarrow> isMe D p H = (Inr (typeinfo obj = typeTag D), H)"
  by (simp add: isMe_def)

lemma empty_handle_live:
  "H this = Some obj \<Longrightarrow> empty_handle this H = (Inr (typeinfo obj = nullptr), H)"
  by (simp add: empty_handle_def)

lemma static_cast_live:
  "H p = Some obj \<Longrightarrow>
     static_cast CT T p H = (if is_base_of CT T (class_of obj) then Inr p else Inl UndefinedCast)"
  by (simp add: static_cast_def)

lemma dynamicCast_derived:
  assumes "isDerivedFromLazyLocal CT T" and "H this = Some obj"
  shows "dynamicCast CT T this H =
           (if typeinfo obj = typeTag T
            then (if is_base_of CT T (class_of obj) then Inr (object_at this) else Inl UndefinedCast)
            else Inr null, H)"
proof -
  from assms(1) have "LazyLocalBase \<noteq> T"
    using not_derived_LazyLocalBase by auto
  with assms show ?thesis
    by (simp add: dynamicCast_def isMe_live static_cast_live)
qed

lemma dynamicCast_plain:
  assumes "T \<noteq> LazyLocalBase" and "\<not> isDerivedFromLazyLocal CT T" and "H this = Some obj"
  shows "dynamicCast CT T this H =
           (if typeinfo obj = typeTag (SimpleLazyLocal T)
            then (if is_base_of CT (SimpleLazyLocal T) (class_of obj)
                  then Inr (localValue_of this) else Inl UndefinedCast)
            else Inr null, H)"
  using assms by (auto simp add: dynamicCast_def isMe_live static_cast_live)

lemma dynamicCast_live:
  assumes "T \<noteq> LazyLocalBase" and "H this = Some obj"
  shows "dynamicCast CT T this H =
           (if typeinfo obj = castTag CT T
            then (if is_base_of CT (castClass CT T) (class_of obj)
                  then Inr (if isDerivedFromLazyLocal CT T then object_at this else localValue_of this)
                  else Inl UndefinedCast)
            else Inr null, H)"
  using assms
  by (cases "isDerivedFromLazyLocal CT T")
     (simp_all add: dynamicCast_derived dynamicCast_plain castTag_def castClass_def)


section \<open>What the actions leave unchanged\<close>

lemma empty_handle_heap: "snd (empty_handle this H) = H"
  by (simp add: empty_handle_def split: option.split)

lemma isMe_heap: "snd (isMe D p H) = H"
  by (simp add: isMe_def split: option.split)

lemma dynamicCast_heap: "snd (dynamicCast CT T this H) = H"
  by (simp add: dynamicCast_def isMe_def static_cast_def split: option.split)

lemma copy_ctor_elsewhere: "a \<noteq> this \<Longrightarrow> snd (LazyLocalBase_copy_ctor other this H) a = H a"
  by (simp add: LazyLocalBase_copy_ctor_def split: option.split)

lemma copy_assign_elsewhere: "a \<noteq> this \<Longrightarrow> snd (LazyLocalBase_copy_assign other this H) a = H a"
  by (simp add: LazyLocalBase_copy_assign_def split: option.split)

lemma assign_typeinfo_elsewhere: "a \<noteq> this \<Longrightarrow> snd (assign_typeinfo ti this H) a = H a"
  by (simp add: assign_typeinfo_def split: option.split)

lemma perform_elsewhere:
  "writes_at act \<noteq> Some a \<Longrightarrow> perform CT H act a = H a"
  by (cases act)
     (simp_all add: LazyLocalBase_nullptr_def LazyLocalBaseImpl_ctor_upd SimpleLazyLocal_ctor_upd
        Class_ctor_upd LazyLocalBase_dtor_def copy_ctor_elsewhere copy_assign_elsewhere
        assign_typeinfo_elsewhere empty_handle_heap isMe_heap dynamicCast_heap)

lemma run_elsewhere:
  assumes "\<forall>act \<in> set acts. writes_at act \<noteq> Some a"
  shows "run CT acts H a = H a"
  using assms
proof (induction acts arbitrary: H)
  case Nil
  then show ?case by (simp add: run_def)
next
  case (Cons act acts)
  then have "run CT acts (perform CT H act) a = perform CT H act a" by simp
  moreover have "perform CT H act a = H a"
    using Cons.prems by (simp add: perform_elsewhere)
  ultimately show ?case by (simp add: run_def)
qed

lemma run_calls:
  assumes "\<forall>act \<in> set calls. writes_at act = None"
  shows "run CT calls H = H"
  using assms
proof (induction calls)
  case Nil
  then show ?case by (simp add: run_def)
next
  case (Cons act calls)
  then have "perform CT H act = H"
    by (cases act) (simp_all add: empty_handle_heap isMe_heap dynamicCast_heap)
  with Cons show ?case by (simp add: run_def)
qed

lemma leaf_ctor_at:
  assumes "H' = Class_ctor D D a H \<or> H' = LazyLocalBaseImpl_ctor D a H
           \<or> (\<exists>V v. D = SimpleLazyLocal V \<and> H' = SimpleLazyLocal_ctor V v a H)"
  shows "\<exists>obj. H' a = Some obj \<and> typeinfo obj = typeTag D"
  using assms by (auto simp add: Class_ctor_at LazyLocalBaseImpl_ctor_at SimpleLazyLocal_ctor_at)

lemma leaf_ctor_elsewhere:
  assumes "H' = Class_ctor D D a H \<or> H' = LazyLocalBaseImpl_ctor D a H
           \<or> (\<exists>V v. D = SimpleLazyLocal V \<and> H' = SimpleLazyLocal_ctor V v a H)"
    and "b \<noteq> a"
  shows "H' b = H b"
  using assms
  by (auto simp add: Class_ctor_upd LazyLocalBaseImpl_ctor_upd SimpleLazyLocal_ctor_upd)

section \<open>The tags a program can store\<close>

lemma perform_stamped:
  assumes "\<forall>a obj. H a = Some obj \<longrightarrow> typeinfo obj = nullptr \<or> (\<exists>D. typeinfo obj = typeTag D)"
    and "\<not> protected_write act"
  shows "\<forall>a obj. perform CT H act a = Some obj \<longrightarrow> typeinfo obj = nullptr \<or> (\<exists>D. typeinfo obj = typeTag D)"
proof (cases act)
  case (Construct_nullptr x)
  with assms show ?thesis by (auto simp add: LazyLocalBase_nullptr_def)
next
  case (Construct_LazyLocalBaseImpl D x)
  with assms show ?thesis by (auto simp add: LazyLocalBaseImpl_ctor_upd)
next
  case (Construct_SimpleLazyLocal T v x)
  with assms show ?thesis by (auto simp add: SimpleLazyLocal_ctor_upd)
next
  case (Construct_Class C D x)
  with assms show ?thesis by (auto simp add: Class_ctor_upd)
next
  case (Copy_construct other x)
  with assms show ?thesis
    by (auto simp add: LazyLocalBase_copy_ctor_def split: option.splits if_splits)
next
  case (Copy_assign other x)
  with assms show ?thesis
    by (auto simp add: LazyLocalBase_copy_assign_def split: option.splits if_splits)
next
  case (Assign_typeinfo ti x)
  with assms show ?thesis by simp
next
  case (Destroy x)
  with assms show ?thesis by (auto simp add: LazyLocalBase_dtor_def)
next
  case (Call_empty x)
  with assms show ?thesis by (simp add: empty_handle_heap)
next
  case (Call_isMe D x)
  with assms show ?thesis by (simp add: isMe_heap)
next
  case (Call_dynamicCast T x)
  with assms show ?thesis by (simp add: dynamicCast_heap)
qed

lemma run_stamped:
  assumes "\<forall>a obj. H a = Some obj \<longrightarrow> typeinfo obj = nullptr \<or> (\<exists>D. typeinfo obj = typeTag D)"
    and "\<forall>act \<in> set acts. \<not> protected_write act"
  shows "\<forall>a obj. run CT acts H a = Some obj \<longrightarrow> typeinfo obj = nullptr \<or> (\<exists>D. typeinfo obj = typeTag D)"
  using assms
proof (induction acts arbitrary: H)
  case Nil
  then show ?case by (simp add: run_def)
next
  case (Cons act acts)
  from Cons.prems(2) have "\<not> protected_write act" by simp
  from perform_stamped [OF Cons.prems(1) this]
  have step: "\<forall>a obj. perform CT H act a = Some obj \<longrightarrow> typeinfo obj = nullptr \<or> (\<exists>D. typeinfo obj = typeTag D)" .
  from Cons.prems(2) have rest: "\<forall>act \<in> set acts. \<not> protected_write act" by simp
  from Cons.IH [OF step rest] show ?case by (simp add: run_def)
qed

section \<open>Objects of the class their tag names\<close>



section \<open>Casting to the base type\<close>

text \<open>
  C3: for every handle, empty or stamped by any constructor, \<^verbatim>\<open>dynamicCast\<close> to
  \<^verbatim>\<open>LazyLocalBase\<close> succeeds and returns the address of the handle itself, whatever
  the heap and the classes of the program are.
\<close>

theorem dynamicCast_base:
  "dynamicCast CT LazyLocalBase this H = (Inr (object_at this), H)"
  by (simp add: dynamicCast_def)

text \<open>
  On a wrapper of the value 42, on an empty handle and on an instance of the class
  \<open>A\<close>.
\<close>

theorem dynamicCast_base_witness:
  "dynamicCast example_classes LazyLocalBase 0 (SimpleLazyLocal_ctor (Fundamental ''int'') (42::int) 0 Map.empty)
     = (Inr (object_at 0), SimpleLazyLocal_ctor (Fundamental ''int'') 42 0 Map.empty)
   \<and> dynamicCast example_classes LazyLocalBase 3 (LazyLocalBase_nullptr 3 (Map.empty :: int heap))
     = (Inr (object_at 3), LazyLocalBase_nullptr 3 Map.empty)
   \<and> dynamicCast example_classes LazyLocalBase 7 (Class_ctor (Class ''A'') (Class ''A'') 7 (Map.empty :: int heap))
     = (Inr (object_at 7), Class_ctor (Class ''A'') (Class ''A'') 7 Map.empty)"
  using dynamicCast_base [of example_classes 0 "SimpleLazyLocal_ctor (Fundamental ''int'') (42::int) 0 Map.empty"]
    dynamicCast_base [of example_classes 3 "LazyLocalBase_nullptr 3 (Map.empty :: int heap)"]
    dynamicCast_base [of example_classes 7 "Class_ctor (Class ''A'') (Class ''A'') 7 (Map.empty :: int heap)"]
  by simp

section \<open>The generic value wrapper\<close>

text \<open>
  C1, as the code has it: for a type \<open>V\<close> that is neither \<^verbatim>\<open>LazyLocalBase\<close> nor derived
  from \<^verbatim>\<open>LazyLocalBaseImpl<V>\<close>, and every value \<open>v\<close>, a \<^verbatim>\<open>SimpleLazyLocal<V>\<close>
  constructed from \<open>v\<close> casts to \<open>V\<close> with a pointer to its \<^verbatim>\<open>localValue\<close> field,
  which holds \<open>v\<close>; and it casts to null for every \<open>W\<close> other than \<^verbatim>\<open>LazyLocalBase\<close>
  whose tag differs from the one \<open>V\<close> is cast with.
\<close>

theorem SimpleLazyLocal_roundtrip:
  assumes "V \<noteq> LazyLocalBase" and "\<not> isDerivedFromLazyLocal CT V"
    and "W \<noteq> LazyLocalBase" and "castTag CT W \<noteq> castTag CT V"
  shows "dynamicCast CT V this (SimpleLazyLocal_ctor V v this H)
           = (Inr (localValue_of this), SimpleLazyLocal_ctor V v this H)
       \<and> pointee (SimpleLazyLocal_ctor V v this H) (localValue_of this) = Some v
       \<and> dynamicCast CT W this (SimpleLazyLocal_ctor V v this H)
           = (Inr null, SimpleLazyLocal_ctor V v this H)"
proof -
  let ?H = "SimpleLazyLocal_ctor V v this H"
  let ?obj = "\<lparr>typeinfo = typeTag (SimpleLazyLocal V), localValue = Some v,
               class_of = SimpleLazyLocal V\<rparr>"
  have live: "?H this = Some ?obj"
    by (rule SimpleLazyLocal_ctor_at)
  have tagV: "castTag CT V = typeTag (SimpleLazyLocal V)"
    using assms(2) by (simp add: castTag_def)
  have "dynamicCast CT V this ?H = (Inr (localValue_of this), ?H)"
    using dynamicCast_plain [where H = "?H" and this = this, OF assms(1,2) live]
    by (simp add: is_base_of_self)
  moreover have "pointee ?H (localValue_of this) = Some v"
    by (simp add: pointee_def live)
  moreover have "dynamicCast CT W this ?H = (Inr null, ?H)"
    using dynamicCast_live [where H = "?H" and this = this and CT = CT, OF assms(3) live] assms(4) tagV
    by simp
  ultimately show ?thesis by simp
qed

text \<open>
  The scenario of the specification: a wrapper of the \<^verbatim>\<open>int\<close> 42 casts to
  \<^verbatim>\<open>int\<close> with a pointer to 42 and to \<^verbatim>\<open>double\<close> with null.
\<close>

theorem SimpleLazyLocal_roundtrip_witness:
  "Fundamental ''int'' \<noteq> LazyLocalBase
   \<and> \<not> isDerivedFromLazyLocal example_classes (Fundamental ''int'')
   \<and> Fundamental ''double'' \<noteq> LazyLocalBase
   \<and> castTag example_classes (Fundamental ''double'') \<noteq> castTag example_classes (Fundamental ''int'')
   \<and> dynamicCast example_classes (Fundamental ''int'') 0 (SimpleLazyLocal_ctor (Fundamental ''int'') (42::int) 0 Map.empty)
        = (Inr (localValue_of 0), SimpleLazyLocal_ctor (Fundamental ''int'') 42 0 Map.empty)
   \<and> pointee (SimpleLazyLocal_ctor (Fundamental ''int'') (42::int) 0 Map.empty) (localValue_of 0) = Some 42
   \<and> dynamicCast example_classes (Fundamental ''double'') 0 (SimpleLazyLocal_ctor (Fundamental ''int'') (42::int) 0 Map.empty)
        = (Inr null, SimpleLazyLocal_ctor (Fundamental ''int'') 42 0 Map.empty)"
proof -
  have h1: "Fundamental ''int'' \<noteq> LazyLocalBase" by simp
  have h2: "\<not> isDerivedFromLazyLocal example_classes (Fundamental ''int'')"
    by (rule not_derived_Fundamental)
  have h3: "Fundamental ''double'' \<noteq> LazyLocalBase" by simp
  have h4: "castTag example_classes (Fundamental ''double'') \<noteq> castTag example_classes (Fundamental ''int'')"
    by (simp add: castTag_def not_derived_Fundamental)
  show ?thesis
    using h1 h2 h3 h4 SimpleLazyLocal_roundtrip [OF h1 h2 h3 h4, of 0 42 Map.empty]
    by simp
qed

text \<open>
  C1 does not hold for every type \<open>V\<close>: with \<^verbatim>\<open>struct A : LazyLocalBaseImpl<A>\<close>, a
  \<^verbatim>\<open>SimpleLazyLocal<A>\<close> holding an \<open>A\<close> is stamped with the tag of the wrapper, while
  \<^verbatim>\<open>dynamicCast<A>\<close> takes the second branch and compares with the tag of \<open>A\<close>: the
  cast returns null. The wrapped value is an object of class \<open>A\<close>, as
  \<^verbatim>\<open>LazyLocalBaseImpl<A>()\<close> leaves it; the wrapper is constructed at address 0 of a
  heap with no other object.
\<close>

theorem wrapped_leaf_counterexample:
  "isDerivedFromLazyLocal example_classes (Class ''A'')
   \<and> fst (dynamicCast example_classes (Class ''A'') 0
        (SimpleLazyLocal_ctor (Class ''A'')
           \<lparr>typeinfo = typeTag (Class ''A''), localValue = None :: unit option\<rparr> 0 Map.empty))
       = Inr null"
  by (simp add: derived_example_A
        dynamicCast_derived [where this = 0 and H = "SimpleLazyLocal_ctor T v 0 H" for T v H,
          OF derived_example_A SimpleLazyLocal_ctor_at])

text \<open>
  C10, as the code has it: for every type \<open>V\<close>, \<^verbatim>\<open>SimpleLazyLocal<V>\<close> is derived from
  \<^verbatim>\<open>LazyLocalBaseImpl\<close> of itself, and on a \<^verbatim>\<open>SimpleLazyLocal<V>\<close> constructed from
  a value \<open>v\<close>, \<^verbatim>\<open>dynamicCast<SimpleLazyLocal<V>>\<close> takes the second branch and returns
  a pointer to the wrapper, whose \<^verbatim>\<open>localValue\<close> field holds \<open>v\<close>. When \<open>V\<close> is
  neither \<^verbatim>\<open>LazyLocalBase\<close> nor derived from \<^verbatim>\<open>LazyLocalBaseImpl<V>\<close>,
  \<^verbatim>\<open>dynamicCast<V>\<close> on the same handle returns a pointer to that field, so the value
  is reached through both target types.
\<close>

theorem SimpleLazyLocal_two_casts:
  "isDerivedFromLazyLocal CT (SimpleLazyLocal V)
   \<and> dynamicCast CT (SimpleLazyLocal V) this (SimpleLazyLocal_ctor V v this H)
       = (Inr (object_at this), SimpleLazyLocal_ctor V v this H)
   \<and> (\<exists>obj. SimpleLazyLocal_ctor V v this H this = Some obj
         \<and> pointee (SimpleLazyLocal_ctor V v this H) (localValue_of this) = localValue obj
         \<and> localValue obj = Some v)
   \<and> (V \<noteq> LazyLocalBase \<and> \<not> isDerivedFromLazyLocal CT V
        \<longrightarrow> dynamicCast CT V this (SimpleLazyLocal_ctor V v this H)
              = (Inr (localValue_of this), SimpleLazyLocal_ctor V v this H))"
proof -
  let ?H = "SimpleLazyLocal_ctor V v this H"
  let ?obj = "\<lparr>typeinfo = typeTag (SimpleLazyLocal V), localValue = Some v,
               class_of = SimpleLazyLocal V\<rparr>"
  have live: "?H this = Some ?obj"
    by (rule SimpleLazyLocal_ctor_at)
  have "dynamicCast CT (SimpleLazyLocal V) this ?H = (Inr (object_at this), ?H)"
    using dynamicCast_derived [where H = "?H" and this = this, OF derived_SimpleLazyLocal live]
    by (simp add: is_base_of_self)
  moreover have "pointee ?H (localValue_of this) = localValue ?obj"
    by (simp add: pointee_def live)
  moreover have "dynamicCast CT V this ?H = (Inr (localValue_of this), ?H)"
    if "V \<noteq> LazyLocalBase" and "\<not> isDerivedFromLazyLocal CT V"
    using dynamicCast_plain [where H = "?H" and this = this, OF that live]
    by (simp add: is_base_of_self)
  ultimately show ?thesis
    using live derived_SimpleLazyLocal by simp
qed

theorem SimpleLazyLocal_two_casts_witness:
  "Fundamental ''int'' \<noteq> LazyLocalBase
   \<and> \<not> isDerivedFromLazyLocal example_classes (Fundamental ''int'')
   \<and> isDerivedFromLazyLocal example_classes (SimpleLazyLocal (Fundamental ''int''))
   \<and> dynamicCast example_classes (Fundamental ''int'') 0 (SimpleLazyLocal_ctor (Fundamental ''int'') (42::int) 0 Map.empty)
        = (Inr (localValue_of 0), SimpleLazyLocal_ctor (Fundamental ''int'') 42 0 Map.empty)
   \<and> dynamicCast example_classes (SimpleLazyLocal (Fundamental ''int'')) 0 (SimpleLazyLocal_ctor (Fundamental ''int'') (42::int) 0 Map.empty)
        = (Inr (object_at 0), SimpleLazyLocal_ctor (Fundamental ''int'') 42 0 Map.empty)
   \<and> (\<exists>obj. SimpleLazyLocal_ctor (Fundamental ''int'') (42::int) 0 Map.empty 0 = Some obj
         \<and> pointee (SimpleLazyLocal_ctor (Fundamental ''int'') (42::int) 0 Map.empty) (localValue_of 0) = localValue obj
         \<and> localValue obj = Some 42)"
proof -
  have h1: "Fundamental ''int'' \<noteq> LazyLocalBase" by simp
  have h2: "\<not> isDerivedFromLazyLocal example_classes (Fundamental ''int'')"
    by (rule not_derived_Fundamental)
  show ?thesis
    using h1 h2
      SimpleLazyLocal_two_casts [where CT = example_classes and V = "Fundamental ''int''"
        and this = 0 and v = "42::int" and H = Map.empty]
    by simp
qed

text \<open>
  C10 does not hold for every type \<open>V\<close>: a \<^verbatim>\<open>SimpleLazyLocal<SimpleLazyLocal<int>>\<close>
  holding a wrapper of 42 is stamped with its own tag, while
  \<^verbatim>\<open>dynamicCast<SimpleLazyLocal<int>>\<close> takes the second branch, since
  \<^verbatim>\<open>SimpleLazyLocal<int>\<close> is derived from \<^verbatim>\<open>LazyLocalBaseImpl\<close> of itself, and
  compares with the tag of \<^verbatim>\<open>SimpleLazyLocal<int>\<close>: the cast to the type of the
  wrapped value returns null, not a pointer to the field.
\<close>

theorem nested_wrapper_counterexample:
  "isDerivedFromLazyLocal example_classes (SimpleLazyLocal (Fundamental ''int''))
   \<and> fst (dynamicCast example_classes (SimpleLazyLocal (Fundamental ''int'')) 0
        (SimpleLazyLocal_ctor (SimpleLazyLocal (Fundamental ''int''))
           \<lparr>typeinfo = typeTag (SimpleLazyLocal (Fundamental ''int'')), localValue = Some (42::int)\<rparr>
           0 Map.empty))
       = Inr null"
  by (simp add: derived_SimpleLazyLocal
        dynamicCast_derived [where this = 0 and H = "SimpleLazyLocal_ctor T v 0 H" for T v H,
          OF derived_SimpleLazyLocal SimpleLazyLocal_ctor_at])

section \<open>Leaf types\<close>

text \<open>
  C2: for two distinct types \<open>A\<close> and \<open>B\<close>, each derived from \<^verbatim>\<open>LazyLocalBaseImpl\<close>
  of itself, an instance of \<open>A\<close> (an object of class \<open>A\<close> whose constructor ran
  \<^verbatim>\<open>LazyLocalBaseImpl<A>()\<close>, or a \<^verbatim>\<open>SimpleLazyLocal<V>\<close> when \<open>A\<close> is that wrapper)
  casts to \<open>A\<close> with a pointer to the instance and to \<open>B\<close> with null; the tags of
  \<open>A\<close> and \<open>B\<close> differ.
\<close>

theorem distinct_leaf_types:
  assumes "isDerivedFromLazyLocal CT A" and "isDerivedFromLazyLocal CT B" and "A \<noteq> B"
    and "H' = Class_ctor A A this H
         \<or> (\<exists>V v. A = SimpleLazyLocal V \<and> H' = SimpleLazyLocal_ctor V v this H)"
  shows "dynamicCast CT A this H' = (Inr (object_at this), H')
       \<and> dynamicCast CT B this H' = (Inr null, H')
       \<and> typeTag A \<noteq> typeTag B"
proof -
  from assms(4) obtain obj where live: "H' this = Some obj"
    and tag: "typeinfo obj = typeTag A" and cls: "class_of obj = A"
    by (auto simp add: Class_ctor_at SimpleLazyLocal_ctor_at)
  have "is_base_of CT A (class_of obj)"
    using cls derived_is_class [OF assms(1)] by (simp add: is_base_of_self)
  then have "dynamicCast CT A this H' = (Inr (object_at this), H')"
    using dynamicCast_derived [where H = H' and this = this, OF assms(1) live] tag by simp
  moreover have "dynamicCast CT B this H' = (Inr null, H')"
    using dynamicCast_derived [where H = H' and this = this, OF assms(2) live] tag assms(3) by simp
  moreover have "typeTag A \<noteq> typeTag B"
    using assms(3) by simp
  ultimately show ?thesis by simp
qed

theorem distinct_leaf_types_witness:
  "isDerivedFromLazyLocal example_classes (Class ''A'')
   \<and> isDerivedFromLazyLocal example_classes (Class ''B'')
   \<and> Class ''A'' \<noteq> Class ''B''
   \<and> dynamicCast example_classes (Class ''A'') 7 (Class_ctor (Class ''A'') (Class ''A'') 7 (Map.empty :: int heap))
        = (Inr (object_at 7), Class_ctor (Class ''A'') (Class ''A'') 7 Map.empty)
   \<and> dynamicCast example_classes (Class ''B'') 7 (Class_ctor (Class ''A'') (Class ''A'') 7 (Map.empty :: int heap))
        = (Inr null, Class_ctor (Class ''A'') (Class ''A'') 7 Map.empty)
   \<and> typeTag (Class ''A'') \<noteq> typeTag (Class ''B'')"
proof -
  have h3: "Class ''A'' \<noteq> Class ''B''" by simp
  have h4: "Class_ctor (Class ''A'') (Class ''A'') 7 (Map.empty :: int heap)
              = Class_ctor (Class ''A'') (Class ''A'') 7 Map.empty
            \<or> (\<exists>V v. Class ''A'' = SimpleLazyLocal V
                  \<and> Class_ctor (Class ''A'') (Class ''A'') 7 (Map.empty :: int heap)
                      = SimpleLazyLocal_ctor V v 7 Map.empty)"
    by simp
  show ?thesis
    using derived_example_A derived_example_B h3
      distinct_leaf_types [OF derived_example_A derived_example_B h3 h4]
    by simp
qed

text \<open>
  C7: two instances of a leaf type \<open>D\<close> constructed at different addresses both
  satisfy \<^verbatim>\<open>isMe\<close> of \<open>D\<close> and both carry the one tag of \<open>D\<close>; this stays so
  through everything the program does later, as long as it neither destroys the two
  objects, nor constructs another object in their place, nor assigns to them. An
  instance is an object of class \<open>D\<close>, a \<^verbatim>\<open>LazyLocalBaseImpl<D>\<close> constructed on its
  own, or a \<^verbatim>\<open>SimpleLazyLocal<V>\<close> when \<open>D\<close> is that wrapper.
\<close>

theorem typeTag_per_type:
  assumes "a \<noteq> b"
    and "Ha = Class_ctor D D a H \<or> Ha = LazyLocalBaseImpl_ctor D a H
         \<or> (\<exists>V v. D = SimpleLazyLocal V \<and> Ha = SimpleLazyLocal_ctor V v a H)"
    and "Hb = Class_ctor D D b Ha \<or> Hb = LazyLocalBaseImpl_ctor D b Ha
         \<or> (\<exists>V v. D = SimpleLazyLocal V \<and> Hb = SimpleLazyLocal_ctor V v b Ha)"
    and "\<forall>act \<in> set acts. writes_at act \<noteq> Some a \<and> writes_at act \<noteq> Some b"
  shows "isMe D a (run CT acts Hb) = (Inr True, run CT acts Hb)
       \<and> isMe D b (run CT acts Hb) = (Inr True, run CT acts Hb)
       \<and> (\<exists>oa ob. run CT acts Hb a = Some oa \<and> run CT acts Hb b = Some ob
             \<and> typeinfo oa = typeTag D \<and> typeinfo ob = typeTag D)"
proof -
  from leaf_ctor_at [OF assms(2)] obtain oa where oa: "Ha a = Some oa" "typeinfo oa = typeTag D"
    by blast
  from leaf_ctor_at [OF assms(3)] obtain ob where ob: "Hb b = Some ob" "typeinfo ob = typeTag D"
    by blast
  have "Hb a = Ha a"
    using leaf_ctor_elsewhere [OF assms(3)] assms(1) by simp
  moreover have "run CT acts Hb a = Hb a"
    using assms(4) by (simp add: run_elsewhere)
  ultimately have la: "run CT acts Hb a = Some oa"
    using oa by simp
  have lb: "run CT acts Hb b = Some ob"
    using assms(4) ob by (simp add: run_elsewhere)
  have "isMe D a (run CT acts Hb) = (Inr True, run CT acts Hb)"
    using isMe_live [where H = "run CT acts Hb" and p = a, OF la] oa by simp
  moreover have "isMe D b (run CT acts Hb) = (Inr True, run CT acts Hb)"
    using isMe_live [where H = "run CT acts Hb" and p = b, OF lb] ob by simp
  ultimately show ?thesis
    using la lb oa ob by simp
qed

theorem typeTag_per_type_witness:
  "(1::nat) \<noteq> 2
   \<and> isMe (Class ''A'') 1
        (run example_classes [Call_dynamicCast (Class ''B'') 1, Construct_nullptr 3, Call_empty 2]
           (Class_ctor (Class ''A'') (Class ''A'') 2 (Class_ctor (Class ''A'') (Class ''A'') 1 (Map.empty :: int heap))))
      = (Inr True,
         run example_classes [Call_dynamicCast (Class ''B'') 1, Construct_nullptr 3, Call_empty 2]
           (Class_ctor (Class ''A'') (Class ''A'') 2 (Class_ctor (Class ''A'') (Class ''A'') 1 Map.empty)))
   \<and> isMe (Class ''A'') 2
        (run example_classes [Call_dynamicCast (Class ''B'') 1, Construct_nullptr 3, Call_empty 2]
           (Class_ctor (Class ''A'') (Class ''A'') 2 (Class_ctor (Class ''A'') (Class ''A'') 1 (Map.empty :: int heap))))
      = (Inr True,
         run example_classes [Call_dynamicCast (Class ''B'') 1, Construct_nullptr 3, Call_empty 2]
           (Class_ctor (Class ''A'') (Class ''A'') 2 (Class_ctor (Class ''A'') (Class ''A'') 1 Map.empty)))"
proof -
  let ?Ha = "Class_ctor (Class ''A'') (Class ''A'') 1 (Map.empty :: int heap)"
  let ?Hb = "Class_ctor (Class ''A'') (Class ''A'') 2 ?Ha"
  let ?acts = "[Call_dynamicCast (Class ''B'') 1, Construct_nullptr 3, Call_empty 2 :: int action]"
  have h1: "(1::nat) \<noteq> 2" by simp
  have h2: "?Ha = Class_ctor (Class ''A'') (Class ''A'') 1 Map.empty
         \<or> ?Ha = LazyLocalBaseImpl_ctor (Class ''A'') 1 Map.empty
         \<or> (\<exists>V v. Class ''A'' = SimpleLazyLocal V \<and> ?Ha = SimpleLazyLocal_ctor V v 1 Map.empty)"
    by simp
  have h3: "?Hb = Class_ctor (Class ''A'') (Class ''A'') 2 ?Ha
         \<or> ?Hb = LazyLocalBaseImpl_ctor (Class ''A'') 2 ?Ha
         \<or> (\<exists>V v. Class ''A'' = SimpleLazyLocal V \<and> ?Hb = SimpleLazyLocal_ctor V v 2 ?Ha)"
    by simp
  have h4: "\<forall>act \<in> set ?acts. writes_at act \<noteq> Some 1 \<and> writes_at act \<noteq> Some 2"
    by simp
  show ?thesis
    using h1 typeTag_per_type [OF h1 h2 h3 h4, of example_classes]
    by simp
qed

section \<open>The empty handle\<close>

text \<open>
  C4: a handle constructed with \<^verbatim>\<open>LazyLocalBase(nullptr)\<close> reports
  \<^verbatim>\<open>empty() == true\<close>, and \<^verbatim>\<open>dynamicCast<T>\<close> on it returns null for every \<open>T\<close>
  other than \<^verbatim>\<open>LazyLocalBase\<close>, a leaf type or a payload type alike.
\<close>

theorem nullptr_handle:
  assumes "T \<noteq> LazyLocalBase"
  shows "empty_handle this (LazyLocalBase_nullptr this H) = (Inr True, LazyLocalBase_nullptr this H)
       \<and> dynamicCast CT T this (LazyLocalBase_nullptr this H) = (Inr null, LazyLocalBase_nullptr this H)"
proof -
  let ?H = "LazyLocalBase_nullptr this H"
  have live: "?H this = Some \<lparr>typeinfo = nullptr, localValue = None, class_of = LazyLocalBase\<rparr>"
    by (rule LazyLocalBase_nullptr_at)
  have "empty_handle this ?H = (Inr True, ?H)"
    using empty_handle_live [where H = "?H" and this = this, OF live] by simp
  moreover have "dynamicCast CT T this ?H = (Inr null, ?H)"
    using dynamicCast_live [where H = "?H" and this = this and CT = CT, OF assms live]
    by (simp add: castTag_def)
  ultimately show ?thesis by simp
qed

theorem nullptr_handle_witness:
  "Fundamental ''int'' \<noteq> LazyLocalBase
   \<and> empty_handle 3 (LazyLocalBase_nullptr 3 (Map.empty :: int heap)) = (Inr True, LazyLocalBase_nullptr 3 Map.empty)
   \<and> dynamicCast example_classes (Fundamental ''int'') 3 (LazyLocalBase_nullptr 3 (Map.empty :: int heap))
        = (Inr null, LazyLocalBase_nullptr 3 Map.empty)
   \<and> Class ''A'' \<noteq> LazyLocalBase
   \<and> dynamicCast example_classes (Class ''A'') 3 (LazyLocalBase_nullptr 3 (Map.empty :: int heap))
        = (Inr null, LazyLocalBase_nullptr 3 Map.empty)"
proof -
  have h1: "Fundamental ''int'' \<noteq> LazyLocalBase" by simp
  have h2: "Class ''A'' \<noteq> LazyLocalBase" by simp
  show ?thesis
    using h1 h2 nullptr_handle [OF h1, of 3 "Map.empty :: int heap" example_classes]
      nullptr_handle [OF h2, of 3 "Map.empty :: int heap" example_classes]
    by simp
qed

section \<open>When a cast fails\<close>




section \<open>The identity pointer\<close>

text \<open>
  C6, as the code has it: in every heap a program reaches from the heap with no object,
  as long as no derived class assigns the protected field, the \<^verbatim>\<open>_typeinfo\<close> of every
  live object is null or the tag of \<^verbatim>\<open>LazyLocalBaseImpl<D>\<close> for some type \<open>D\<close>, which
  need not be a leaf type. The constructor \<^verbatim>\<open>LazyLocalBaseImpl<D>()\<close> leaves an
  object stamped with the tag of \<open>D\<close>, also when it runs for a class derived from it, and
  the constructor of \<^verbatim>\<open>SimpleLazyLocal<T>\<close> one stamped with the tag of the wrapper.
  \<^verbatim>\<open>empty\<close>, \<^verbatim>\<open>isMe\<close> and \<^verbatim>\<open>dynamicCast\<close> change no object, and no action
  changes the object at an address \<open>a\<close> unless it constructs, destroys or assigns at
  \<open>a\<close>; nor does any sequence of such actions. The copy assignment of
  \<^verbatim>\<open>LazyLocalBase\<close> does change the field of a live object: to the \<^verbatim>\<open>_typeinfo\<close> of
  its source.
\<close>

theorem typeinfo_invariant:
  "((\<forall>act \<in> set acts. \<not> protected_write act) \<and> run CT acts Map.empty a = Some obj
      \<longrightarrow> typeinfo obj = nullptr \<or> (\<exists>D. typeinfo obj = typeTag D))
   \<and> (\<exists>new. LazyLocalBaseImpl_ctor D this H this = Some new \<and> typeinfo new = typeTag D)
   \<and> (\<exists>new. Class_ctor C D this H this = Some new \<and> typeinfo new = typeTag D)
   \<and> (\<exists>new. SimpleLazyLocal_ctor T v this H this = Some new
          \<and> typeinfo new = typeTag (SimpleLazyLocal T))
   \<and> (writes_at act = None \<longrightarrow> perform CT H act = H)
   \<and> (writes_at act \<noteq> Some a \<longrightarrow> perform CT H act a = H a)
   \<and> ((\<forall>act \<in> set acts'. writes_at act \<noteq> Some a) \<longrightarrow> run CT acts' H a = H a)
   \<and> (H this = Some dst \<and> H other = Some src
        \<longrightarrow> (\<exists>new. snd (LazyLocalBase_copy_assign other this H) this = Some new
               \<and> typeinfo new = typeinfo src))"
proof -
  have "\<forall>a obj. (Map.empty :: 'a heap) a = Some obj
          \<longrightarrow> typeinfo obj = nullptr \<or> (\<exists>D. typeinfo obj = typeTag D)"
    by simp
  from run_stamped [OF this]
  have "(\<forall>act \<in> set acts. \<not> protected_write act) \<and> run CT acts Map.empty a = Some obj
          \<longrightarrow> typeinfo obj = nullptr \<or> (\<exists>D. typeinfo obj = typeTag D)"
    by blast
  moreover have "writes_at act = None \<longrightarrow> perform CT H act = H"
    using run_calls [of "[act]" CT H] by (simp add: run_def)
  moreover have "H this = Some dst \<and> H other = Some src
        \<longrightarrow> (\<exists>new. snd (LazyLocalBase_copy_assign other this H) this = Some new
               \<and> typeinfo new = typeinfo src)"
    by (simp add: LazyLocalBase_copy_assign_def)
  ultimately show ?thesis
    by (simp add: LazyLocalBaseImpl_ctor_at Class_ctor_at SimpleLazyLocal_ctor_at
          perform_elsewhere run_elsewhere)
qed

text \<open>
  A program that constructs an empty handle at 0, a wrapper of 42 at 1 and an instance
  of \<open>A\<close> at 2, casts the wrapper, and assigns the instance of \<open>A\<close> to the empty handle:
  the wrapper at 1 is as constructed. On the heap with the empty handle and the wrapper,
  a cast changes nothing, and assigning the wrapper to the empty handle gives the handle
  the tag of the wrapper.
\<close>

theorem typeinfo_invariant_witness:
  "run example_classes
       [Construct_nullptr 0, Construct_SimpleLazyLocal (Fundamental ''int'') (42::int) 1,
        Call_dynamicCast (Fundamental ''int'') 1, Construct_Class (Class ''A'') (Class ''A'') 2,
        Copy_assign 2 0, Call_empty 0] Map.empty 1
     = Some \<lparr>typeinfo = typeTag (SimpleLazyLocal (Fundamental ''int'')), localValue = Some 42,
             class_of = SimpleLazyLocal (Fundamental ''int'')\<rparr>
   \<and> (\<exists>D. typeinfo \<lparr>typeinfo = typeTag (SimpleLazyLocal (Fundamental ''int'')),
                     localValue = Some (42::int),
                     class_of = SimpleLazyLocal (Fundamental ''int'')\<rparr> = typeTag D)
   \<and> (\<exists>new. LazyLocalBaseImpl_ctor (Class ''A'') 0
               (SimpleLazyLocal_ctor (Fundamental ''int'') (42::int) 1 (LazyLocalBase_nullptr 0 Map.empty)) 0
             = Some new
          \<and> typeinfo new = typeTag (Class ''A''))
   \<and> (\<exists>new. Class_ctor (Class ''A'') (Class ''A'') 0
               (SimpleLazyLocal_ctor (Fundamental ''int'') (42::int) 1 (LazyLocalBase_nullptr 0 Map.empty)) 0
             = Some new
          \<and> typeinfo new = typeTag (Class ''A''))
   \<and> writes_at (Call_dynamicCast (Fundamental ''int'') 1 :: int action) = None
   \<and> perform example_classes
        (SimpleLazyLocal_ctor (Fundamental ''int'') (42::int) 1 (LazyLocalBase_nullptr 0 Map.empty))
        (Call_dynamicCast (Fundamental ''int'') 1)
      = SimpleLazyLocal_ctor (Fundamental ''int'') 42 1 (LazyLocalBase_nullptr 0 Map.empty)
   \<and> run example_classes
        [Call_dynamicCast (Fundamental ''int'') 1, Construct_Class (Class ''A'') (Class ''A'') 2,
         Copy_assign 2 0, Call_empty 0]
        (SimpleLazyLocal_ctor (Fundamental ''int'') (42::int) 1 (LazyLocalBase_nullptr 0 Map.empty)) 1
      = SimpleLazyLocal_ctor (Fundamental ''int'') 42 1 (LazyLocalBase_nullptr 0 Map.empty) 1
   \<and> (\<exists>new. snd (LazyLocalBase_copy_assign 1 0
                    (SimpleLazyLocal_ctor (Fundamental ''int'') (42::int) 1 (LazyLocalBase_nullptr 0 Map.empty))) 0
             = Some new
          \<and> typeinfo new = typeTag (SimpleLazyLocal (Fundamental ''int'')))"
proof -
  let ?acts = "[Construct_nullptr 0, Construct_SimpleLazyLocal (Fundamental ''int'') (42::int) 1,
        Call_dynamicCast (Fundamental ''int'') 1, Construct_Class (Class ''A'') (Class ''A'') 2,
        Copy_assign 2 0, Call_empty 0]"
  let ?rest = "[Call_dynamicCast (Fundamental ''int'') 1, Construct_Class (Class ''A'') (Class ''A'') 2,
         Copy_assign 2 0, Call_empty 0 :: int action]"
  let ?w = "\<lparr>typeinfo = typeTag (SimpleLazyLocal (Fundamental ''int'')), localValue = Some (42::int),
             class_of = SimpleLazyLocal (Fundamental ''int'')\<rparr>"
  let ?e = "\<lparr>typeinfo = nullptr, localValue = None :: int option, class_of = LazyLocalBase\<rparr>"
  let ?H = "SimpleLazyLocal_ctor (Fundamental ''int'') (42::int) 1 (LazyLocalBase_nullptr 0 Map.empty)"
  let ?call = "Call_dynamicCast (Fundamental ''int'') 1 :: int action"
  have h0: "\<forall>act \<in> set ?acts. \<not> protected_write act"
    by simp
  have h1: "run example_classes ?acts Map.empty 1 = Some ?w"
    by (simp add: run_def LazyLocalBase_nullptr_def SimpleLazyLocal_ctor_upd dynamicCast_heap
          Class_ctor_upd LazyLocalBase_copy_assign_def empty_handle_heap)
  have h2: "writes_at ?call = None"
    by simp
  have h3: "\<forall>act \<in> set ?rest. writes_at act \<noteq> Some 1"
    by simp
  have h4: "?H 0 = Some ?e \<and> ?H 1 = Some ?w"
    by (simp add: LazyLocalBase_nullptr_def SimpleLazyLocal_ctor_upd)
  note inv = typeinfo_invariant [where CT = example_classes and acts = ?acts and a = 1 and obj = ?w
      and D = "Class ''A''" and C = "Class ''A''" and this = 0 and H = ?H
      and T = "Fundamental ''int''" and v = 42 and act = ?call and acts' = ?rest
      and dst = ?e and other = 1 and src = ?w]
  have "typeinfo ?w = nullptr \<or> (\<exists>D. typeinfo ?w = typeTag D)"
    using inv h0 h1 by blast
  then have "\<exists>D. typeinfo ?w = typeTag D"
    by simp
  moreover have "\<exists>new. LazyLocalBaseImpl_ctor (Class ''A'') 0 ?H 0 = Some new
      \<and> typeinfo new = typeTag (Class ''A'')"
    using inv by blast
  moreover have "\<exists>new. Class_ctor (Class ''A'') (Class ''A'') 0 ?H 0 = Some new
      \<and> typeinfo new = typeTag (Class ''A'')"
    using inv by blast
  moreover have "perform example_classes ?H ?call = ?H"
    using inv h2 by blast
  moreover have "run example_classes ?rest ?H 1 = ?H 1"
    using inv h3 by blast
  moreover have "\<exists>new. snd (LazyLocalBase_copy_assign 1 0 ?H) 0 = Some new
      \<and> typeinfo new = typeTag (SimpleLazyLocal (Fundamental ''int''))"
  proof -
    from inv h4 have "\<exists>new. snd (LazyLocalBase_copy_assign 1 0 ?H) 0 = Some new
        \<and> typeinfo new = typeinfo ?w"
      by blast
    then show ?thesis by simp
  qed
  ultimately show ?thesis
    using h1 h2 by blast
qed

text \<open>
  C6 does not hold as stated. With an empty handle at 0 and an instance of \<open>A\<close> at 1,
  the copy assignment \<^verbatim>\<open>*p1 = *p0\<close> through \<^verbatim>\<open>LazyLocalBase\<close> pointers changes the
  \<^verbatim>\<open>_typeinfo\<close> of the live instance from the tag of \<open>A\<close> to null, and
  \<^verbatim>\<open>A::isMe\<close> is false on it afterwards. And \<^verbatim>\<open>LazyLocalBaseImpl<int>()\<close> stamps
  an object with the tag of \<^verbatim>\<open>int\<close>, which is no leaf type.
\<close>

theorem copy_assign_counterexample:
  "map_option typeinfo
       (Class_ctor (Class ''A'') (Class ''A'') 1 (LazyLocalBase_nullptr 0 (Map.empty :: int heap)) 1)
     = Some (typeTag (Class ''A''))
   \<and> map_option typeinfo
       (snd (LazyLocalBase_copy_assign 0 1
               (Class_ctor (Class ''A'') (Class ''A'') 1 (LazyLocalBase_nullptr 0 (Map.empty :: int heap)))) 1)
     = Some nullptr
   \<and> fst (isMe (Class ''A'') 1
       (snd (LazyLocalBase_copy_assign 0 1
               (Class_ctor (Class ''A'') (Class ''A'') 1 (LazyLocalBase_nullptr 0 (Map.empty :: int heap))))))
     = Inr False
   \<and> \<not> isDerivedFromLazyLocal example_classes (Fundamental ''int'')
   \<and> map_option typeinfo (LazyLocalBaseImpl_ctor (Fundamental ''int'') 2 (Map.empty :: int heap) 2)
     = Some (typeTag (Fundamental ''int''))"
  by (simp add: Class_ctor_upd LazyLocalBase_nullptr_def LazyLocalBase_copy_assign_def isMe_def
        not_derived_Fundamental LazyLocalBaseImpl_ctor_upd)

section \<open>Calls have no effect\<close>

text \<open>
  C8: \<^verbatim>\<open>dynamicCast<T>\<close> and \<^verbatim>\<open>empty\<close> return the heap they were given: no
  object is added, removed or changed. So does any sequence of calls of
  \<^verbatim>\<open>dynamicCast\<close>, \<^verbatim>\<open>isMe\<close> and \<^verbatim>\<open>empty\<close>, with any target types and on any
  handles, and a call made after the sequence returns what it returns before it.
\<close>

theorem calls_leave_heap:
  assumes "\<forall>act \<in> set calls. writes_at act = None"
  shows "snd (dynamicCast CT T this H) = H
       \<and> snd (empty_handle this H) = H
       \<and> run CT calls H = H
       \<and> dynamicCast CT T this (run CT calls H) = dynamicCast CT T this H
       \<and> empty_handle this (run CT calls H) = empty_handle this H"
  using run_calls [OF assms] by (simp add: dynamicCast_heap empty_handle_heap)

theorem calls_leave_heap_witness:
  "writes_at (Call_dynamicCast (Fundamental ''int'') 0 :: int action) = None
   \<and> writes_at (Call_empty 0 :: int action) = None
   \<and> writes_at (Call_dynamicCast (Class ''A'') 0 :: int action) = None
   \<and> snd (dynamicCast example_classes (Fundamental ''int'') 0 (SimpleLazyLocal_ctor (Fundamental ''int'') (42::int) 0 Map.empty))
       = SimpleLazyLocal_ctor (Fundamental ''int'') 42 0 Map.empty
   \<and> snd (empty_handle 0 (SimpleLazyLocal_ctor (Fundamental ''int'') (42::int) 0 Map.empty))
       = SimpleLazyLocal_ctor (Fundamental ''int'') 42 0 Map.empty
   \<and> run example_classes
        [Call_dynamicCast (Fundamental ''int'') 0, Call_empty 0, Call_dynamicCast (Class ''A'') 0,
         Call_dynamicCast (Fundamental ''int'') 0]
        (SimpleLazyLocal_ctor (Fundamental ''int'') (42::int) 0 Map.empty)
       = SimpleLazyLocal_ctor (Fundamental ''int'') 42 0 Map.empty
   \<and> dynamicCast example_classes (Fundamental ''int'') 0
        (run example_classes
          [Call_dynamicCast (Fundamental ''int'') 0, Call_empty 0, Call_dynamicCast (Class ''A'') 0,
           Call_dynamicCast (Fundamental ''int'') 0]
          (SimpleLazyLocal_ctor (Fundamental ''int'') (42::int) 0 Map.empty))
       = dynamicCast example_classes (Fundamental ''int'') 0
           (SimpleLazyLocal_ctor (Fundamental ''int'') 42 0 Map.empty)"
proof -
  let ?calls = "[Call_dynamicCast (Fundamental ''int'') 0, Call_empty 0, Call_dynamicCast (Class ''A'') 0,
         Call_dynamicCast (Fundamental ''int'') 0 :: int action]"
  have h: "\<forall>act \<in> set ?calls. writes_at act = None"
    by simp
  show ?thesis
    using calls_leave_heap [OF h, of example_classes "Fundamental ''int''" 0
        "SimpleLazyLocal_ctor (Fundamental ''int'') (42::int) 0 Map.empty"]
    by simp
qed

end
